theory Spec2Isabelle
  imports Complex_Main
begin

section \<open>Values, errors and arithmetic of the source language\<close>

text \<open>
  The calculator is written in Python. Its \<open>float\<close> values are modelled as exact reals, so
  rounding error, overflow, infinities and NaN are outside this first model; a second model,
  in binary64 arithmetic, follows for the properties that depend on rounding. Its \<open>int\<close>
  values are unbounded integers. An exception is a value: \<open>Inl e\<close>; a normal return is
  \<open>Inr v\<close>. A loop that may run forever returns \<open>None\<close> for "does not return".
\<close>

datatype py_error = ZeroDivisionError | OverflowError | ValidationError | BadRequest

text \<open>\<open>a / b\<close> on floats raises \<open>ZeroDivisionError\<close> when \<open>b\<close> is zero.\<close>

definition py_div :: "real \<Rightarrow> real \<Rightarrow> py_error + real" where
  "py_div a b = (if b = 0 then Inl ZeroDivisionError else Inr (a / b))"

text \<open>\<open>x ** k\<close> for a float \<open>x\<close> and an integer \<open>k\<close>: zero to a negative power raises.\<close>

definition py_pow :: "real \<Rightarrow> int \<Rightarrow> py_error + real" where
  "py_pow x k = (if x = 0 \<and> k < 0 then Inl ZeroDivisionError else Inr (x powi k))"

text \<open>\<open>round(x, nd)\<close>: the nearest multiple of \<open>10 ^ (- nd)\<close>, a tie going to the even one.\<close>

definition round_half_even :: "real \<Rightarrow> int" where
  "round_half_even s =
     (let f = \<lfloor>s\<rfloor>; r = s - of_int f in
      if r < 1 / 2 then f else if 1 / 2 < r then f + 1 else if even f then f else f + 1)"

definition py_round :: "real \<Rightarrow> nat \<Rightarrow> real" where
  "py_round x nd = of_int (round_half_even (x * 10 ^ nd)) / 10 ^ nd"

section \<open>Calculation utilities (shared by both \<open>main.py\<close> files)\<close>

definition pv_annuity :: "real \<Rightarrow> real \<Rightarrow> int \<Rightarrow> py_error + real" where
  "pv_annuity monthly i n =
     (if n \<le> 0 then Inr 0
      else if i = 0 then Inr (monthly * of_int n)
      else (case py_pow (1 + i) (- n) of
              Inl e \<Rightarrow> Inl e
            | Inr p \<Rightarrow> py_div (monthly * (1 - p)) i))"

text \<open>
  The \<open>while m <= n\<close> loop of \<open>pv_bonuses\<close>, with its two loop variables \<open>m\<close> and \<open>pv\<close>.
  With \<open>every_months \<le> 0\<close> the source never leaves the loop, which is the value \<open>None\<close> here.
\<close>

partial_function (option) pv_bonuses_loop ::
  "real \<Rightarrow> real \<Rightarrow> int \<Rightarrow> int \<Rightarrow> int \<Rightarrow> real \<Rightarrow> (py_error + real) option" where
  "pv_bonuses_loop bonus_per_event i n every_months m pv =
     (if m \<le> n then
        (if 1 + i = 0 \<and> m < 0 then Some (Inl ZeroDivisionError)
         else if (1 + i) powi m = 0 then Some (Inl ZeroDivisionError)
         else pv_bonuses_loop bonus_per_event i n every_months (m + every_months)
                (pv + bonus_per_event / ((1 + i) powi m)))
      else Some (Inr pv))"

definition pv_bonuses :: "real \<Rightarrow> real \<Rightarrow> int \<Rightarrow> int \<Rightarrow> (py_error + real) option" where
  "pv_bonuses bonus_per_event i n every_months =
     (if bonus_per_event \<le> 0 \<or> n \<le> 0 then Some (Inr 0)
      else if i = 0 then
        (if every_months = 0 then Some (Inl ZeroDivisionError)
         else Some (Inr (bonus_per_event * of_int (n div every_months))))
      else pv_bonuses_loop bonus_per_event i n every_months every_months 0)"

definition loan_capacity_by_payments ::
  "real \<Rightarrow> real \<Rightarrow> real \<Rightarrow> int \<Rightarrow> (py_error + real) option" where
  "loan_capacity_by_payments monthly_man bonus_man rate_percent years =
     (let n = years * 12; i = rate_percent / 100 / 12 in
      case pv_annuity monthly_man i n of
        Inl e \<Rightarrow> Some (Inl e)
      | Inr a \<Rightarrow> (case pv_bonuses bonus_man i n 6 of
                    None \<Rightarrow> None
                  | Some (Inl e) \<Rightarrow> Some (Inl e)
                  | Some (Inr b) \<Rightarrow> Some (Inr (a + b))))"

definition monthly_payment_from_total_loan ::
  "real \<Rightarrow> real \<Rightarrow> real \<Rightarrow> int \<Rightarrow> (py_error + real) option" where
  "monthly_payment_from_total_loan total_loan_man bonus_man rate_percent years =
     (let n = years * 12; i = rate_percent / 100 / 12 in
      if n \<le> 0 then Some (Inr 0)
      else (case pv_bonuses bonus_man i n 6 of
              None \<Rightarrow> None
            | Some (Inl e) \<Rightarrow> Some (Inl e)
            | Some (Inr pv_bonus) \<Rightarrow>
                (let pv_for_monthly = max (total_loan_man - pv_bonus) 0 in
                 if i = 0 then Some (py_div pv_for_monthly (of_int n))
                 else (case py_pow (1 + i) (- n) of
                         Inl e \<Rightarrow> Some (Inl e)
                       | Inr p \<Rightarrow> Some (py_div (pv_for_monthly * i) (1 - p))))))"

definition full_renovation_cost :: "int \<Rightarrow> real" where
  "full_renovation_cost area_m2 = of_int (area_m2 * 12 + 350)"

definition solve_purchase_price :: "real \<Rightarrow> real \<Rightarrow> py_error + real" where
  "solve_purchase_price total_funds_man fee_rate =
     (case py_div total_funds_man (1 + max fee_rate 0) of
        Inl e \<Rightarrow> Inl e
      | Inr q \<Rightarrow> Inr (max q 0))"

definition normalize_man_input :: "real option \<Rightarrow> real \<times> bool" where
  "normalize_man_input x =
     (case x of
        None \<Rightarrow> (0, False)
      | Some v \<Rightarrow> if v \<ge> 100000 then (v / 10000, True) else (v, False))"

section \<open>The same utilities in binary64 arithmetic\<close>

text \<open>
  Where a property depends on rounding, the exact reals above are not enough. A finite double is
  \<open>mant * 2 ^ expo\<close>, kept in canonical form (odd mantissa, or \<open>F64 0 0\<close> for zero), and every
  operation rounds its exact result to the nearest double, a tie going to the even mantissa
  (53 bits, gradual underflow at \<open>2 ^ (- 1074)\<close>). A result of magnitude \<open>2 ^ 1024\<close> or more
  is reported as \<open>OverflowError\<close>, as Python does for \<open>**\<close>; infinities, NaN and the sign of
  zero are not represented. \<open>**\<close> is taken as correctly rounded; it is exact when the base
  is \<open>1.0\<close>.
\<close>

datatype f64 = F64 (mant: int) (expo: int)

definition f64_val :: "f64 \<Rightarrow> real" where
  "f64_val x = of_int (mant x) * 2 powi (expo x)"

text \<open>The number of bits of a positive integer (\<open>int.bit_length\<close>); 0 otherwise.\<close>

function bit_length :: "int \<Rightarrow> int" where
  "bit_length n = (if n \<le> 0 then 0 else 1 + bit_length (n div 2))"
  by pat_completeness auto
termination
  by (relation "measure nat") auto

declare bit_length.simps [simp del]

text \<open>The canonical form of \<open>m * 2 ^ e\<close>: factors of two move from the mantissa to the exponent.\<close>

function f64_norm :: "int \<Rightarrow> int \<Rightarrow> f64" where
  "f64_norm m e = (if m = 0 then F64 0 0
                   else if even m then f64_norm (m div 2) (e + 1) else F64 m e)"
  by pat_completeness auto
termination
  by (relation "measure (\<lambda>(m, e). nat \<bar>m\<bar>)") auto

declare f64_norm.simps [simp del]

text \<open>A value already on the binary64 grid: it is finite when it is below \<open>2 ^ 1024\<close>.\<close>

definition f64_finite :: "int \<Rightarrow> int \<Rightarrow> py_error + f64" where
  "f64_finite m e =
     (if m \<noteq> 0 \<and> 1024 < bit_length \<bar>m\<bar> + e then Inl OverflowError
      else Inr (f64_norm m e))"

text \<open>
  The exact value \<open>M * 2 ^ e\<close> rounded to binary64: \<open>k\<close> low bits of \<open>M\<close> are dropped, so that
  53 bits remain and the exponent stays at or above \<open>- 1074\<close>; \<open>r\<close> is what is dropped and \<open>h\<close>
  half a unit in the last place.
\<close>

definition f64_round :: "int \<Rightarrow> int \<Rightarrow> py_error + f64" where
  "f64_round M e =
     (let k = max (bit_length \<bar>M\<bar> - 53) (- 1074 - e) in
      if k \<le> 0 then f64_finite M e
      else
        (let q = \<bar>M\<bar> div 2 ^ nat k;
             r = \<bar>M\<bar> mod 2 ^ nat k;
             h = 2 ^ (nat k - 1);
             q' = (if h < r \<or> (r = h \<and> odd q) then q + 1 else q)
         in f64_finite (sgn M * q') (e + k)))"

text \<open>
  The exact quotient \<open>N / D * 2 ^ e\<close> (with \<open>D > 0\<close>) rounded to binary64: the integer quotient
  is taken with at least 55 bits and one more bit records a nonzero remainder, so that the
  rounding of that integer is the rounding of the quotient.
\<close>

definition f64_quot :: "int \<Rightarrow> int \<Rightarrow> int \<Rightarrow> py_error + f64" where
  "f64_quot N D e =
     (let k = nat (55 + bit_length D - bit_length \<bar>N\<bar>);
          q = (\<bar>N\<bar> * 2 ^ k) div D;
          r = (\<bar>N\<bar> * 2 ^ k) mod D
      in f64_round (sgn N * (2 * q + (if r = 0 then 0 else 1))) (e - int k - 1))"

definition f64_of_int :: "int \<Rightarrow> py_error + f64" where
  "f64_of_int n = f64_round n 0"

definition f64_add :: "f64 \<Rightarrow> f64 \<Rightarrow> py_error + f64" where
  "f64_add x y =
     (let e = min (expo x) (expo y) in
      f64_round (mant x * 2 ^ nat (expo x - e) + mant y * 2 ^ nat (expo y - e)) e)"

definition f64_sub :: "f64 \<Rightarrow> f64 \<Rightarrow> py_error + f64" where
  "f64_sub x y =
     (let e = min (expo x) (expo y) in
      f64_round (mant x * 2 ^ nat (expo x - e) - mant y * 2 ^ nat (expo y - e)) e)"

definition f64_mul :: "f64 \<Rightarrow> f64 \<Rightarrow> py_error + f64" where
  "f64_mul x y = f64_round (mant x * mant y) (expo x + expo y)"

definition f64_div :: "f64 \<Rightarrow> f64 \<Rightarrow> py_error + f64" where
  "f64_div x y =
     (if mant y = 0 then Inl ZeroDivisionError
      else f64_quot (mant x * sgn (mant y)) \<bar>mant y\<bar> (expo x - expo y))"

definition f64_pow :: "f64 \<Rightarrow> int \<Rightarrow> py_error + f64" where
  "f64_pow x k =
     (if mant x = 0 \<and> k < 0 then Inl ZeroDivisionError
      else if 0 \<le> k then f64_round (mant x ^ nat k) (expo x * k)
      else f64_quot (sgn (mant x) ^ nat (- k)) (\<bar>mant x\<bar> ^ nat (- k)) (expo x * k))"

text \<open>\<open>x < y\<close>, and \<open>max(x, y)\<close>, which returns \<open>y\<close> only when \<open>x < y\<close>.\<close>

definition f64_less :: "f64 \<Rightarrow> f64 \<Rightarrow> bool" where
  "f64_less x y =
     (let e = min (expo x) (expo y) in
      mant x * 2 ^ nat (expo x - e) < mant y * 2 ^ nat (expo y - e))"

definition f64_max :: "f64 \<Rightarrow> f64 \<Rightarrow> f64" where
  "f64_max x y = (if f64_less x y then y else x)"

text \<open>An integer literal or operand of small magnitude, which converts to a double exactly.\<close>

definition f64_lit :: "int \<Rightarrow> f64" where
  "f64_lit n = f64_norm n 0"

text \<open>Sequencing: the first exception raised is the outcome.\<close>

definition and_then :: "py_error + 'a \<Rightarrow> ('a \<Rightarrow> py_error + 'b) \<Rightarrow> py_error + 'b" where
  "and_then r f = (case r of Inl e \<Rightarrow> Inl e | Inr v \<Rightarrow> f v)"

text \<open>\<open>pv + bonus_per_event / ((1 + i) ** m)\<close>, the new \<open>pv\<close> of one turn of the loop.\<close>

definition pv_bonuses_add_f64 :: "f64 \<Rightarrow> f64 \<Rightarrow> int \<Rightarrow> f64 \<Rightarrow> py_error + f64" where
  "pv_bonuses_add_f64 bonus_per_event i m pv =
     and_then (f64_add (f64_lit 1) i) (\<lambda>base.
     and_then (f64_pow base m) (\<lambda>p.
     and_then (f64_div bonus_per_event p) (\<lambda>t. f64_add pv t)))"

partial_function (option) pv_bonuses_loop_f64 ::
  "f64 \<Rightarrow> f64 \<Rightarrow> int \<Rightarrow> int \<Rightarrow> int \<Rightarrow> f64 \<Rightarrow> (py_error + f64) option" where
  "pv_bonuses_loop_f64 bonus_per_event i n every_months m pv =
     (if m \<le> n then
        (case pv_bonuses_add_f64 bonus_per_event i m pv of
           Inl e \<Rightarrow> Some (Inl e)
         | Inr pv' \<Rightarrow>
             pv_bonuses_loop_f64 bonus_per_event i n every_months (m + every_months) pv')
      else Some (Inr pv))"

definition pv_bonuses_f64 :: "f64 \<Rightarrow> f64 \<Rightarrow> int \<Rightarrow> int \<Rightarrow> (py_error + f64) option" where
  "pv_bonuses_f64 bonus_per_event i n every_months =
     (if \<not> f64_less (f64_lit 0) bonus_per_event \<or> n \<le> 0 then Some (Inr (f64_lit 0))
      else if mant i = 0 then
        (if every_months = 0 then Some (Inl ZeroDivisionError)
         else Some (and_then (f64_of_int (n div every_months)) (f64_mul bonus_per_event)))
      else pv_bonuses_loop_f64 bonus_per_event i n every_months every_months (f64_lit 0))"

definition pv_annuity_f64 :: "f64 \<Rightarrow> f64 \<Rightarrow> int \<Rightarrow> py_error + f64" where
  "pv_annuity_f64 monthly i n =
     (if n \<le> 0 then Inr (f64_lit 0)
      else if mant i = 0 then and_then (f64_of_int n) (f64_mul monthly)
      else
        and_then (f64_add (f64_lit 1) i) (\<lambda>base.
        and_then (f64_pow base (- n)) (\<lambda>p.
        and_then (f64_sub (f64_lit 1) p) (\<lambda>d.
        and_then (f64_mul monthly d) (\<lambda>num.
          f64_div num i)))))"

definition loan_capacity_by_payments_f64 ::
  "f64 \<Rightarrow> f64 \<Rightarrow> f64 \<Rightarrow> int \<Rightarrow> (py_error + f64) option" where
  "loan_capacity_by_payments_f64 monthly_man bonus_man rate_percent years =
     (let n = years * 12 in
      case and_then (f64_div rate_percent (f64_lit 100)) (\<lambda>c. f64_div c (f64_lit 12)) of
        Inl e \<Rightarrow> Some (Inl e)
      | Inr i \<Rightarrow>
          (case pv_annuity_f64 monthly_man i n of
             Inl e \<Rightarrow> Some (Inl e)
           | Inr a \<Rightarrow>
               (case pv_bonuses_f64 bonus_man i n 6 of
                  None \<Rightarrow> None
                | Some (Inl e) \<Rightarrow> Some (Inl e)
                | Some (Inr b) \<Rightarrow> Some (f64_add a b))))"

definition monthly_payment_from_total_loan_f64 ::
  "f64 \<Rightarrow> f64 \<Rightarrow> f64 \<Rightarrow> int \<Rightarrow> (py_error + f64) option" where
  "monthly_payment_from_total_loan_f64 total_loan_man bonus_man rate_percent years =
     (let n = years * 12 in
      case and_then (f64_div rate_percent (f64_lit 100)) (\<lambda>c. f64_div c (f64_lit 12)) of
        Inl e \<Rightarrow> Some (Inl e)
      | Inr i \<Rightarrow>
          (if n \<le> 0 then Some (Inr (f64_lit 0))
           else (case pv_bonuses_f64 bonus_man i n 6 of
                   None \<Rightarrow> None
                 | Some (Inl e) \<Rightarrow> Some (Inl e)
                 | Some (Inr pv_bonus) \<Rightarrow>
                     Some (and_then (f64_sub total_loan_man pv_bonus) (\<lambda>d.
                       (let pv_for_monthly = f64_max d (f64_lit 0) in
                        if mant i = 0
                        then and_then (f64_of_int n) (f64_div pv_for_monthly)
                        else
                          and_then (f64_add (f64_lit 1) i) (\<lambda>base.
                          and_then (f64_pow base (- n)) (\<lambda>p.
                          and_then (f64_sub (f64_lit 1) p) (\<lambda>denom.
                          and_then (f64_mul pv_for_monthly i) (\<lambda>num.
                            f64_div num denom))))))))))"

section \<open>Configuration and the request and response models\<close>

text \<open>\<open>FEE_RATE\<close> and \<open>TAX_RATE\<close> are read from the environment at start-up (defaults 0.08, 0.10).\<close>

record config =
  FEE_RATE :: real
  TAX_RATE :: real

definition default_config :: config where
  "default_config = \<lparr>FEE_RATE = 8 / 100, TAX_RATE = 10 / 100\<rparr>"

datatype reno_mode = Full | Manual

text \<open>\<open>CalcReq\<close> of \<open>src/myapp/main.py\<close>.\<close>

record CalcReq =
  self_man :: real
  monthly_man :: "real option"
  total_loan_input_man :: "real option"
  rate_percent :: real
  area_need_m2 :: int
  years :: int
  reno_mode :: reno_mode
  reno_cost_input_man :: "real option"
  bonus_man :: real
  memo_text :: "string option"

text \<open>The five unit-correction notices that \<open>calc\<close> can append, in the order of the source.\<close>

datatype warning = WarnSelf | WarnMonthly | WarnTotalLoan | WarnBonus | WarnReno

text \<open>
  The response of \<open>calc\<close> in \<open>src/myapp/main.py\<close>; its \<open>memo_text\<close> key is \<open>memo_text_out\<close>
  here, and \<open>warning_text\<close> holds the notices that the source joins with newlines.
\<close>

record CalcRes =
  ok :: bool
  monthly_man_out :: real
  total_loan_man :: real
  reno_cost_man :: real
  reno_cost_tax_incl_man :: real
  fee_man :: real
  purchasable_price_man :: real
  memo_text_out :: string
  warning_text :: "warning list option"

text \<open>\<open>CalcReq\<close> and \<open>CalcRes\<close> of \<open>src/app/main.py\<close> (fields prefixed with \<open>app_\<close>).\<close>

record AppCalcReq =
  app_self_man :: real
  app_monthly_man :: real
  app_rate_percent :: real
  app_area_need_m2 :: int
  app_years :: int
  app_reno_mode :: reno_mode
  app_reno_cost_input_man :: "real option"
  app_bonus_man :: real
  app_memo_text :: "string option"

record AppCalcRes =
  app_ok :: bool
  app_total_loan_man :: real
  app_reno_cost_man :: real
  app_reno_cost_tax_incl_man :: real
  app_fee_man :: real
  app_purchasable_price_man :: real
  app_memo_text_out :: string

text \<open>The \<open>years\<close> field validator, the same in both files.\<close>

definition check_years :: "int \<Rightarrow> py_error + int" where
  "check_years v = (if v \<le> 0 \<or> v > 50 then Inl ValidationError else Inr v)"

section \<open>The calculation of \<open>src/myapp/main.py\<close>\<close>

text \<open>The local variables of \<open>calc\<close> just before the response is built.\<close>

record calc_locals =
  l_self_man :: real
  l_monthly_in :: real
  l_total_in :: real
  l_bonus_man :: real
  l_reno :: real
  l_reno_tax :: real
  l_monthly :: real
  l_total_loan :: real
  l_disposable :: real
  l_purch :: real
  l_fee :: real
  l_warning_msgs :: "warning list"

text \<open>\<open>x or 0.0\<close>: \<open>None\<close> and \<open>0.0\<close> are falsy.\<close>

definition or_zero :: "real option \<Rightarrow> real" where
  "or_zero x = (case x of None \<Rightarrow> 0 | Some v \<Rightarrow> if v = 0 then 0 else v)"

text \<open>Lines 341 to 350: the choice of the solve direction, returning \<open>(monthly, total_loan)\<close>.\<close>

definition calc_solve ::
  "real \<Rightarrow> real \<Rightarrow> real \<Rightarrow> real \<Rightarrow> int \<Rightarrow> (py_error + real \<times> real) option" where
  "calc_solve total_in monthly_in bonus rate yrs =
     (if total_in > 0 \<and> monthly_in \<le> 0 then
        (case monthly_payment_from_total_loan total_in bonus rate yrs of
           None \<Rightarrow> None
         | Some (Inl e) \<Rightarrow> Some (Inl e)
         | Some (Inr monthly) \<Rightarrow> Some (Inr (monthly, total_in)))
      else
        (case loan_capacity_by_payments monthly_in bonus rate yrs of
           None \<Rightarrow> None
         | Some (Inl e) \<Rightarrow> Some (Inl e)
         | Some (Inr total_loan) \<Rightarrow> Some (Inr (monthly_in, total_loan))))"

text \<open>
  Lines 319 to 336: the unit correction of the amounts, the notices it appends, and the
  renovation cost of the chosen mode.
\<close>

record calc_inputs =
  n_self_man :: real
  n_monthly_in :: real
  n_total_in :: real
  n_bonus_man :: real
  n_reno :: real
  n_warning_msgs :: "warning list"

definition calc_normalize :: "CalcReq \<Rightarrow> calc_inputs" where
  "calc_normalize req =
     (let (self_m, w1) = normalize_man_input (Some (self_man req));
          (monthly_in, w2) = (case monthly_man req of
                                Some v \<Rightarrow> normalize_man_input (Some v)
                              | None \<Rightarrow> (0, False));
          (total_in, w3) = (case total_loan_input_man req of
                              Some v \<Rightarrow> normalize_man_input (Some v)
                            | None \<Rightarrow> (0, False));
          (bonus, w4) = normalize_man_input (Some (bonus_man req));
          msgs4 = (if w1 then [WarnSelf] else []) @ (if w2 then [WarnMonthly] else [])
                  @ (if w3 then [WarnTotalLoan] else []) @ (if w4 then [WarnBonus] else []);
          (reno, msgs) =
            (case reno_mode req of
               Full \<Rightarrow> (full_renovation_cost (area_need_m2 req), msgs4)
             | Manual \<Rightarrow>
                 (let (r, w5) = normalize_man_input (Some (or_zero (reno_cost_input_man req)))
                  in (r, msgs4 @ (if w5 then [WarnReno] else []))))
      in \<lparr>n_self_man = self_m, n_monthly_in = monthly_in, n_total_in = total_in,
          n_bonus_man = bonus, n_reno = reno, n_warning_msgs = msgs\<rparr>)"

text \<open>Lines 338 to 354, after the inputs are normalized.\<close>

definition calc_run :: "config \<Rightarrow> CalcReq \<Rightarrow> (py_error + calc_locals) option" where
  "calc_run cfg req =
     (let inp = calc_normalize req;
          reno_tax = n_reno inp * (1 + TAX_RATE cfg)
      in case calc_solve (n_total_in inp) (n_monthly_in inp) (n_bonus_man inp)
                (rate_percent req) (years req) of
           None \<Rightarrow> None
         | Some (Inl e) \<Rightarrow> Some (Inl e)
         | Some (Inr (monthly, total_loan)) \<Rightarrow>
             (let disposable = n_self_man inp + total_loan - reno_tax in
              case solve_purchase_price disposable (FEE_RATE cfg) of
                Inl e \<Rightarrow> Some (Inl e)
              | Inr purch \<Rightarrow>
                  Some (Inr \<lparr>l_self_man = n_self_man inp, l_monthly_in = n_monthly_in inp,
                             l_total_in = n_total_in inp, l_bonus_man = n_bonus_man inp,
                             l_reno = n_reno inp, l_reno_tax = reno_tax, l_monthly = monthly,
                             l_total_loan = total_loan, l_disposable = disposable,
                             l_purch = purch, l_fee = purch * FEE_RATE cfg,
                             l_warning_msgs = n_warning_msgs inp\<rparr>)))"

text \<open>The response: every amount rounded, the memo defaulted, the notices joined.\<close>

definition calc_response :: "CalcReq \<Rightarrow> calc_locals \<Rightarrow> CalcRes" where
  "calc_response req l =
     \<lparr>ok = True,
      monthly_man_out = py_round (l_monthly l) 2,
      total_loan_man = py_round (l_total_loan l) 1,
      reno_cost_man = py_round (l_reno l) 1,
      reno_cost_tax_incl_man = py_round (l_reno_tax l) 1,
      fee_man = py_round (l_fee l) 1,
      purchasable_price_man = py_round (l_purch l) 1,
      memo_text_out = (case memo_text req of None \<Rightarrow> [] | Some t \<Rightarrow> t),
      warning_text = (if l_warning_msgs l = [] then None else Some (l_warning_msgs l))\<rparr>"

definition calc :: "config \<Rightarrow> CalcReq \<Rightarrow> (py_error + CalcRes) option" where
  "calc cfg req =
     (case calc_run cfg req of
        None \<Rightarrow> None
      | Some (Inl e) \<Rightarrow> Some (Inl e)
      | Some (Inr l) \<Rightarrow> Some (Inr (calc_response req l)))"

text \<open>\<open>POST /calc\<close>: the request model is validated, then \<open>calc\<close> runs.\<close>

definition post_calc :: "config \<Rightarrow> CalcReq \<Rightarrow> (py_error + CalcRes) option" where
  "post_calc cfg req =
     (case check_years (years req) of
        Inl e \<Rightarrow> Some (Inl e)
      | Inr _ \<Rightarrow> calc cfg req)"

section \<open>The calculation of \<open>src/app/main.py\<close>\<close>

record app_calc_locals =
  al_total_loan :: real
  al_reno_cost :: real
  al_reno_cost_tax_incl :: real
  al_disposable :: real
  al_purch_price :: real
  al_fee :: real

definition app_calc_run :: "config \<Rightarrow> AppCalcReq \<Rightarrow> (py_error + app_calc_locals) option" where
  "app_calc_run cfg req =
     (if app_self_man req < 0 \<or> app_monthly_man req \<le> 0 \<or> app_rate_percent req < 0
         \<or> app_area_need_m2 req \<le> 0
      then Some (Inl BadRequest)
      else
        (case loan_capacity_by_payments (app_monthly_man req) (app_bonus_man req)
                (app_rate_percent req) (app_years req) of
           None \<Rightarrow> None
         | Some (Inl e) \<Rightarrow> Some (Inl e)
         | Some (Inr total_loan) \<Rightarrow>
             (case (case app_reno_mode req of
                      Full \<Rightarrow> Inr (full_renovation_cost (app_area_need_m2 req))
                    | Manual \<Rightarrow> (case app_reno_cost_input_man req of
                                   None \<Rightarrow> Inl BadRequest
                                 | Some c \<Rightarrow> Inr c)) of
                Inl e \<Rightarrow> Some (Inl e)
              | Inr reno_cost \<Rightarrow>
                  (let reno_cost_tax_incl = reno_cost * (1 + TAX_RATE cfg);
                       disposable = app_self_man req + total_loan - reno_cost
                   in case solve_purchase_price disposable (FEE_RATE cfg) of
                        Inl e \<Rightarrow> Some (Inl e)
                      | Inr purch_price \<Rightarrow>
                          Some (Inr \<lparr>al_total_loan = total_loan, al_reno_cost = reno_cost,
                                     al_reno_cost_tax_incl = reno_cost_tax_incl,
                                     al_disposable = disposable,
                                     al_purch_price = purch_price,
                                     al_fee = purch_price * FEE_RATE cfg\<rparr>)))))"

definition app_calc_response :: "AppCalcReq \<Rightarrow> app_calc_locals \<Rightarrow> AppCalcRes" where
  "app_calc_response req l =
     \<lparr>app_ok = True,
      app_total_loan_man = py_round (al_total_loan l) 1,
      app_reno_cost_man = py_round (al_reno_cost l) 1,
      app_reno_cost_tax_incl_man = py_round (al_reno_cost_tax_incl l) 1,
      app_fee_man = py_round (al_fee l) 1,
      app_purchasable_price_man = py_round (al_purch_price l) 1,
      app_memo_text_out = (case app_memo_text req of None \<Rightarrow> [] | Some t \<Rightarrow> t)\<rparr>"

definition app_calc :: "config \<Rightarrow> AppCalcReq \<Rightarrow> (py_error + AppCalcRes) option" where
  "app_calc cfg req =
     (case app_calc_run cfg req of
        None \<Rightarrow> None
      | Some (Inl e) \<Rightarrow> Some (Inl e)
      | Some (Inr l) \<Rightarrow> Some (Inr (app_calc_response req l)))"

definition app_post_calc :: "config \<Rightarrow> AppCalcReq \<Rightarrow> (py_error + AppCalcRes) option" where
  "app_post_calc cfg req =
     (case check_years (app_years req) of
        Inl e \<Rightarrow> Some (Inl e)
      | Inr _ \<Rightarrow> app_calc cfg req)"

section \<open>Properties\<close>

subsection \<open>Helper facts\<close>

lemma solve_purchase_price_returns:
  "solve_purchase_price t f = Inr (max (t / (1 + max f 0)) 0)"
  by (simp add: solve_purchase_price_def py_div_def max_def)

lemma pv_bonuses_loop_returns:
  assumes "0 < every" and "0 < 1 + i"
  shows "\<exists>v. pv_bonuses_loop b i n every m pv = Some (Inr v)"
  using assms
proof (induction "nat (n - m + 1)" arbitrary: m pv rule: less_induct)
  case less
  show ?case
  proof (cases "m \<le> n")
    case False
    then show ?thesis by (subst pv_bonuses_loop.simps) simp
  next
    case True
    have nz: "(1 + i) powi m \<noteq> 0" using less.prems(2) by simp
    have "nat (n - (m + every) + 1) < nat (n - m + 1)"
      using True less.prems(1) by simp
    from less.hyps [OF this less.prems]
    obtain v where
      "pv_bonuses_loop b i n every (m + every) (pv + b / ((1 + i) powi m)) = Some (Inr v)"
      by blast
    then show ?thesis
      using True nz less.prems(2) by (subst pv_bonuses_loop.simps) simp
  qed
qed

lemma pv_bonuses_returns:
  assumes "0 \<le> i"
  shows "\<exists>v. pv_bonuses b i n 6 = Some (Inr v)"
proof -
  have "0 < 1 + i" using assms by simp
  from pv_bonuses_loop_returns [of 6 i b n 6 0, OF _ this]
  show ?thesis by (auto simp: pv_bonuses_def)
qed

lemma discount_factor_bounds:
  assumes "0 < i" and "0 < n"
  shows "(1 + i) powi (- n) < (1::real)" and "0 < (1 + i) powi (- n)"
proof -
  have "1 < (1 + i) ^ nat n" using assms by simp
  then show "(1 + i) powi (- n) < 1" using assms
    by (simp add: power_int_def field_simps)
  show "0 < (1 + i) powi (- n)" using assms by simp
qed

lemma loan_capacity_zero_rate:
  "0 < y \<Longrightarrow> loan_capacity_by_payments m 0 0 y = Some (Inr (m * of_int (y * 12)))"
  by (simp add: loan_capacity_by_payments_def pv_annuity_def pv_bonuses_def)

lemma monthly_payment_zero_rate:
  "0 < y \<Longrightarrow> monthly_payment_from_total_loan t 0 0 y = Some (Inr (max t 0 / of_int (y * 12)))"
  by (simp add: monthly_payment_from_total_loan_def pv_bonuses_def py_div_def)

subsection \<open>The two solve directions\<close>

text \<open>
  Over exact reals, for a monthly payment \<open>m \<ge> 0\<close>, a bonus \<open>b \<ge> 0\<close>, a rate \<open>r > 0\<close> and
  \<open>y \<ge> 1\<close> years, the forward solve returns a loan \<open>L\<close>, and the reverse solve on \<open>L\<close> with
  the same bonus, rate and years returns \<open>m\<close>: the two formulas are algebraic inverses.
\<close>

lemma reverse_solve_inverts_forward_exact:
  assumes "0 \<le> m" and "0 \<le> b" and "0 < r" and "1 \<le> y"
  shows "\<exists>L. loan_capacity_by_payments m b r y = Some (Inr L)
            \<and> monthly_payment_from_total_loan L b r y = Some (Inr m)"
proof -
  define i where "i = r / 100 / 12"
  define n where "n = y * 12"
  define p where "p = (1 + i) powi (- n)"
  have ipos: "0 < i" and npos: "0 < n" using assms by (simp_all add: i_def n_def)
  have p1: "p < 1" using discount_factor_bounds(1) [OF ipos npos] by (simp add: p_def)
  obtain pb where pb: "pv_bonuses b i n 6 = Some (Inr pb)"
    using pv_bonuses_returns [of i b n] ipos by auto
  have ann: "pv_annuity m i n = Inr (m * (1 - p) / i)"
    using ipos npos by (simp add: pv_annuity_def py_pow_def py_div_def p_def)
  have cap: "loan_capacity_by_payments m b r y = Some (Inr (m * (1 - p) / i + pb))"
    unfolding loan_capacity_by_payments_def Let_def i_def [symmetric] n_def [symmetric]
    using ann pb by simp
  have nonneg: "0 \<le> m * (1 - p) / i" using assms(1) p1 ipos by simp
  have "monthly_payment_from_total_loan (m * (1 - p) / i + pb) b r y = Some (Inr m)"
    unfolding monthly_payment_from_total_loan_def Let_def i_def [symmetric] n_def [symmetric]
      py_pow_def p_def [symmetric]
    using pb ipos npos p1 nonneg by (simp add: py_div_def max_def)
  with cap show ?thesis by blast
qed

subsection \<open>The unit normalizer\<close>

text \<open>
  C6. \<open>normalize_man_input\<close> maps a null input to \<open>(0, False)\<close>, a number \<open>x \<ge> 100000\<close> to
  \<open>(x / 10000, True)\<close> and a number \<open>y < 100000\<close> to \<open>(y, False)\<close>; at the boundary,
  99999.99 is returned unchanged and unflagged and 100000 becomes \<open>(10, True)\<close>.
\<close>

theorem normalize_man_input_cases:
  "normalize_man_input None = (0, False)
   \<and> (100000 \<le> x \<longrightarrow> normalize_man_input (Some x) = (x / 10000, True))
   \<and> (y < 100000 \<longrightarrow> normalize_man_input (Some y) = (y, False))
   \<and> normalize_man_input (Some (9999999 / 100)) = (9999999 / 100, False)
   \<and> normalize_man_input (Some 100000) = (10, True)"
  by (simp add: normalize_man_input_def)

theorem normalize_man_input_cases_witness:
  "(100000::real) \<le> 5000000 \<and> (300::real) < 100000
   \<and> normalize_man_input (Some 5000000) = (500, True)
   \<and> normalize_man_input (Some 300) = (300, False)"
  using normalize_man_input_cases [of 5000000 300] by simp

text \<open>
  C7, as stated: normalizing the value component of \<open>normalize_man_input x\<close> returns it
  unchanged and unflagged, for every \<open>x\<close>. It fails at one thousand million, whose
  normalized value 100000 is rescaled a second time.
\<close>

theorem normalize_twice_counterexample:
  "normalize_man_input (Some (fst (normalize_man_input (Some 1000000000))))
     \<noteq> (fst (normalize_man_input (Some 1000000000)), False)"
  by (simp add: normalize_man_input_def)

text \<open>
  C7, amended: for a null input and for every number \<open>x\<close> below one thousand million (the
  inputs whose normalized value is below 100000), normalizing the value component of
  \<open>normalize_man_input x\<close> returns it unchanged with \<open>corrected = False\<close>; and every value
  \<open>v\<close> below 100000 is returned unchanged and unflagged.
\<close>

theorem normalize_man_input_idempotent_below:
  "normalize_man_input (Some (fst (normalize_man_input None)))
     = (fst (normalize_man_input None), False)
   \<and> (x < 1000000000 \<longrightarrow>
        normalize_man_input (Some (fst (normalize_man_input (Some x))))
          = (fst (normalize_man_input (Some x)), False))
   \<and> (v < 100000 \<longrightarrow> normalize_man_input (Some v) = (v, False))"
  by (simp add: normalize_man_input_def)

theorem normalize_man_input_idempotent_below_witness:
  "(5000000::real) < 1000000000 \<and> (500::real) < 100000
   \<and> fst (normalize_man_input (Some 5000000)) = 500
   \<and> normalize_man_input (Some (fst (normalize_man_input (Some 5000000)))) = (500, False)
   \<and> normalize_man_input (Some 500) = (500, False)"
  using normalize_man_input_idempotent_below [of 5000000 500]
  by (simp add: normalize_man_input_def)

subsection \<open>Facts about the two \<open>calc\<close> functions\<close>

lemma pv_annuity_returns:
  assumes "0 \<le> i"
  shows "\<exists>v. pv_annuity m i n = Inr v"
  using assms by (simp add: pv_annuity_def py_pow_def py_div_def)

lemma loan_capacity_returns:
  assumes "0 \<le> r"
  shows "\<exists>L. loan_capacity_by_payments m b r y = Some (Inr L)"
proof -
  have i: "0 \<le> r / 100 / 12" using assms by simp
  obtain a where a: "pv_annuity m (r / 100 / 12) (y * 12) = Inr a"
    using pv_annuity_returns [OF i] by blast
  obtain pb where pb: "pv_bonuses b (r / 100 / 12) (y * 12) 6 = Some (Inr pb)"
    using pv_bonuses_returns [OF i] by blast
  show ?thesis
    unfolding loan_capacity_by_payments_def Let_def using a pb by simp
qed

lemma monthly_payment_returns:
  assumes "0 \<le> r" and "1 \<le> y"
  shows "\<exists>v. monthly_payment_from_total_loan t b r y = Some (Inr v)"
proof -
  define i where "i = r / 100 / 12"
  define n where "n = y * 12"
  have i0: "0 \<le> i" and npos: "0 < n" using assms by (simp_all add: i_def n_def)
  obtain pb where pb: "pv_bonuses b i n 6 = Some (Inr pb)"
    using pv_bonuses_returns [OF i0] by blast
  show ?thesis
  proof (cases "i = 0")
    case True
    then show ?thesis
      unfolding monthly_payment_from_total_loan_def Let_def i_def [symmetric] n_def [symmetric]
      using pb npos by (simp add: py_div_def)
  next
    case False
    then have ipos: "0 < i" using i0 by simp
    have "(1 + i) powi (- n) < 1" using discount_factor_bounds(1) [OF ipos npos] .
    then show ?thesis
      unfolding monthly_payment_from_total_loan_def Let_def i_def [symmetric] n_def [symmetric]
      using pb npos ipos by (simp add: py_div_def py_pow_def)
  qed
qed

lemma calc_normalize_fields:
  "n_self_man (calc_normalize req) = fst (normalize_man_input (Some (self_man req)))"
  "n_monthly_in (calc_normalize req) =
     (case monthly_man req of None \<Rightarrow> 0 | Some v \<Rightarrow> fst (normalize_man_input (Some v)))"
  "n_total_in (calc_normalize req) =
     (case total_loan_input_man req of None \<Rightarrow> 0
      | Some v \<Rightarrow> fst (normalize_man_input (Some v)))"
  "n_bonus_man (calc_normalize req) = fst (normalize_man_input (Some (bonus_man req)))"
  "n_reno (calc_normalize req) =
     (case reno_mode req of
        Full \<Rightarrow> full_renovation_cost (area_need_m2 req)
      | Manual \<Rightarrow> fst (normalize_man_input (Some (or_zero (reno_cost_input_man req)))))"
  by (simp_all add: calc_normalize_def Let_def split_beta
      split: option.split reno_mode.split split del: if_split)

lemma calc_run_outcome:
  "calc_run cfg req =
     (case calc_solve (n_total_in (calc_normalize req)) (n_monthly_in (calc_normalize req))
             (n_bonus_man (calc_normalize req)) (rate_percent req) (years req) of
        None \<Rightarrow> None
      | Some (Inl e) \<Rightarrow> Some (Inl e)
      | Some (Inr ml) \<Rightarrow>
          Some (Inr \<lparr>l_self_man = n_self_man (calc_normalize req),
                     l_monthly_in = n_monthly_in (calc_normalize req),
                     l_total_in = n_total_in (calc_normalize req),
                     l_bonus_man = n_bonus_man (calc_normalize req),
                     l_reno = n_reno (calc_normalize req),
                     l_reno_tax = n_reno (calc_normalize req) * (1 + TAX_RATE cfg),
                     l_monthly = fst ml, l_total_loan = snd ml,
                     l_disposable = n_self_man (calc_normalize req) + snd ml
                        - n_reno (calc_normalize req) * (1 + TAX_RATE cfg),
                     l_purch = max ((n_self_man (calc_normalize req) + snd ml
                        - n_reno (calc_normalize req) * (1 + TAX_RATE cfg))
                          / (1 + max (FEE_RATE cfg) 0)) 0,
                     l_fee = max ((n_self_man (calc_normalize req) + snd ml
                        - n_reno (calc_normalize req) * (1 + TAX_RATE cfg))
                          / (1 + max (FEE_RATE cfg) 0)) 0 * FEE_RATE cfg,
                     l_warning_msgs = n_warning_msgs (calc_normalize req)\<rparr>))"
  by (simp add: calc_run_def Let_def split_beta solve_purchase_price_returns
      split: option.split sum.split)

text \<open>
  In \<open>src/myapp/main.py\<close> the purchasable price is solved from self funds plus the total
  loan minus the tax-inclusive renovation cost, and the fee is that price times the fee rate.
\<close>

lemma calc_run_locals:
  assumes "calc_run cfg req = Some (Inr l)"
  shows "l_reno_tax l = l_reno l * (1 + TAX_RATE cfg)"
    and "l_disposable l = l_self_man l + l_total_loan l - l_reno_tax l"
    and "solve_purchase_price (l_disposable l) (FEE_RATE cfg) = Inr (l_purch l)"
    and "l_fee l = l_purch l * FEE_RATE cfg"
    and "l_self_man l = n_self_man (calc_normalize req)"
    and "l_reno l = n_reno (calc_normalize req)"
  using assms unfolding calc_run_outcome
  by (auto simp: solve_purchase_price_returns split: option.splits sum.splits)

lemma app_calc_run_locals:
  assumes "app_calc_run cfg req = Some (Inr l)"
  shows "al_disposable l = app_self_man req + al_total_loan l - al_reno_cost l"
    and "solve_purchase_price (al_disposable l) (FEE_RATE cfg) = Inr (al_purch_price l)"
    and "al_fee l = al_purch_price l * FEE_RATE cfg"
    and "al_reno_cost_tax_incl l = al_reno_cost l * (1 + TAX_RATE cfg)"
  using assms unfolding app_calc_run_def Let_def
  by (auto simp: solve_purchase_price_returns
      split: if_splits option.splits sum.splits reno_mode.splits)

lemma calc_run_forward_example:
  "calc_run default_config
     \<lparr>self_man = 217, monthly_man = Some 10, total_loan_input_man = None, rate_percent = 0,
      area_need_m2 = 60, years = 35, reno_mode = Full, reno_cost_input_man = None,
      bonus_man = 0, memo_text = None\<rparr>
   = Some (Inr \<lparr>l_self_man = 217, l_monthly_in = 10, l_total_in = 0, l_bonus_man = 0,
                l_reno = 1070, l_reno_tax = 1177, l_monthly = 10, l_total_loan = 4200,
                l_disposable = 3240, l_purch = 3000, l_fee = 240, l_warning_msgs = []\<rparr>)"
  by (simp add: calc_run_def calc_normalize_def calc_solve_def loan_capacity_zero_rate
      normalize_man_input_def full_renovation_cost_def default_config_def
      solve_purchase_price_returns)

lemma app_calc_run_example:
  "app_calc_run default_config
     \<lparr>app_self_man = 110, app_monthly_man = 10, app_rate_percent = 0, app_area_need_m2 = 60,
      app_years = 35, app_reno_mode = Full, app_reno_cost_input_man = None,
      app_bonus_man = 0, app_memo_text = None\<rparr>
   = Some (Inr \<lparr>al_total_loan = 4200, al_reno_cost = 1070, al_reno_cost_tax_incl = 1177,
                al_disposable = 3240, al_purch_price = 3000, al_fee = 240\<rparr>)"
  by (simp add: app_calc_run_def loan_capacity_zero_rate
      full_renovation_cost_def default_config_def solve_purchase_price_returns)

text \<open>\<open>src/app/main.py\<close> rejects the out-of-range amounts and the missing manual cost.\<close>

lemma app_post_calc_rejects:
  assumes "app_years req < 1 \<or> 50 < app_years req \<or> app_area_need_m2 req \<le> 0
           \<or> app_self_man req < 0 \<or> app_rate_percent req < 0 \<or> app_monthly_man req < 0"
  shows "app_post_calc cfg req = Some (Inl ValidationError)
         \<or> app_post_calc cfg req = Some (Inl BadRequest)"
  using assms
  by (auto simp: app_post_calc_def check_years_def app_calc_def app_calc_run_def)

lemma app_calc_manual_cost_missing:
  assumes "app_reno_mode req = Manual" and "app_reno_cost_input_man req = None"
    and "0 \<le> app_rate_percent req"
  shows "app_calc cfg req = Some (Inl BadRequest)"
proof -
  obtain L where "loan_capacity_by_payments (app_monthly_man req) (app_bonus_man req)
                    (app_rate_percent req) (app_years req) = Some (Inr L)"
    using loan_capacity_returns [OF assms(3)] by blast
  then show ?thesis using assms(1,2) by (simp add: app_calc_def app_calc_run_def)
qed

lemma post_calc_rejects_years:
  assumes "years req < 1 \<or> 50 < years req"
  shows "post_calc cfg req = Some (Inl ValidationError)"
  using assms by (auto simp: post_calc_def check_years_def)

subsection \<open>Disposable funds\<close>

text \<open>
  C1 asks that \<open>calc\<close> solve the purchasable price from self funds plus the total loan minus
  the tax-inclusive renovation cost. The \<open>calc\<close> of \<open>src/app/main.py\<close> subtracts the
  tax-exclusive cost instead: with self funds 110, monthly payment 10, rate 0, 35 years and
  area 60 in full mode, the tax-inclusive cost is 1177, but the disposable funds are
  \<open>110 + 4200 - 1070 = 3240\<close> and the price 3000, where the claim's quantity is 3133.
\<close>

theorem app_calc_disposable_tax_exclusive:
  "app_calc_run default_config
     \<lparr>app_self_man = 110, app_monthly_man = 10, app_rate_percent = 0, app_area_need_m2 = 60,
      app_years = 35, app_reno_mode = Full, app_reno_cost_input_man = None,
      app_bonus_man = 0, app_memo_text = None\<rparr>
   = Some (Inr \<lparr>al_total_loan = 4200, al_reno_cost = 1070, al_reno_cost_tax_incl = 1177,
                al_disposable = 3240, al_purch_price = 3000, al_fee = 240\<rparr>)
   \<and> (110 + 4200 - 1177 :: real) \<noteq> 3240
   \<and> solve_purchase_price (110 + 4200 - 1177) (FEE_RATE default_config) \<noteq> Inr 3000"
  using app_calc_run_example
  by (simp add: solve_purchase_price_returns default_config_def)

subsection \<open>Input validation\<close>

text \<open>
  C3 asks for a validation error on a negative \<open>self_funds\<close>. The \<open>POST /calc\<close> of
  \<open>src/myapp/main.py\<close> validates \<open>years\<close> only: with self funds \<open>-1\<close> it returns a
  complete result with \<open>ok = True\<close>.
\<close>

theorem post_calc_accepts_negative_self_funds:
  "post_calc default_config
     \<lparr>self_man = - 1, monthly_man = Some 10, total_loan_input_man = None, rate_percent = 0,
      area_need_m2 = 60, years = 35, reno_mode = Full, reno_cost_input_man = None,
      bonus_man = 0, memo_text = None\<rparr>
   = Some (Inr \<lparr>ok = True, monthly_man_out = 10, total_loan_man = 4200, reno_cost_man = 1070,
                reno_cost_tax_incl_man = 1177, fee_man = 2239 / 10,
                purchasable_price_man = 27981 / 10, memo_text_out = [],
                warning_text = None\<rparr>)"
  by (simp add: post_calc_def check_years_def calc_def calc_run_def calc_normalize_def
      calc_solve_def loan_capacity_zero_rate normalize_man_input_def full_renovation_cost_def
      default_config_def solve_purchase_price_returns calc_response_def py_round_def
      round_half_even_def Let_def)

text \<open>
  C4 asks for an input error when the mode is manual and no manual cost is supplied. The
  \<open>calc\<close> of \<open>src/myapp/main.py\<close> takes the missing cost as 0 and returns a result.
\<close>

theorem post_calc_manual_cost_defaults_to_zero:
  "post_calc default_config
     \<lparr>self_man = 120, monthly_man = Some 10, total_loan_input_man = None, rate_percent = 0,
      area_need_m2 = 60, years = 35, reno_mode = Manual, reno_cost_input_man = None,
      bonus_man = 0, memo_text = None\<rparr>
   = Some (Inr \<lparr>ok = True, monthly_man_out = 10, total_loan_man = 4200, reno_cost_man = 0,
                reno_cost_tax_incl_man = 0, fee_man = 320, purchasable_price_man = 4000,
                memo_text_out = [], warning_text = None\<rparr>)"
  by (simp add: post_calc_def check_years_def calc_def calc_run_def calc_normalize_def
      calc_solve_def loan_capacity_zero_rate normalize_man_input_def or_zero_def
      default_config_def solve_purchase_price_returns calc_response_def py_round_def
      round_half_even_def Let_def)

subsection \<open>The solve direction\<close>

lemma calc_direction_core:
  "(if 0 < n_total_in (calc_normalize req) \<and> n_monthly_in (calc_normalize req) \<le> 0
    then (case monthly_payment_from_total_loan (n_total_in (calc_normalize req))
                 (n_bonus_man (calc_normalize req)) (rate_percent req) (years req) of
            None \<Rightarrow> calc_run cfg req = None
          | Some (Inl e) \<Rightarrow> calc_run cfg req = Some (Inl e)
          | Some (Inr mo) \<Rightarrow>
              (\<exists>l. calc_run cfg req = Some (Inr l) \<and> l_monthly l = mo
                   \<and> l_total_loan l = n_total_in (calc_normalize req)))
    else (case loan_capacity_by_payments (n_monthly_in (calc_normalize req))
                 (n_bonus_man (calc_normalize req)) (rate_percent req) (years req) of
            None \<Rightarrow> calc_run cfg req = None
          | Some (Inl e) \<Rightarrow> calc_run cfg req = Some (Inl e)
          | Some (Inr loan) \<Rightarrow>
              (\<exists>l. calc_run cfg req = Some (Inr l)
                   \<and> l_monthly l = n_monthly_in (calc_normalize req)
                   \<and> l_total_loan l = loan)))"
  unfolding calc_run_outcome calc_solve_def
  by (cases "0 < n_total_in (calc_normalize req) \<and> n_monthly_in (calc_normalize req) \<le> 0")
     (auto split: option.split sum.split)

text \<open>
  C5. With the total-loan input and the monthly payment normalized (an absent one being 0),
  \<open>calc\<close> takes its monthly payment from \<open>monthly_payment_from_total_loan\<close> on the
  total-loan input, which is then the total loan, exactly when the total-loan input is
  positive and the monthly payment is not; otherwise it keeps the monthly payment and takes
  the total loan from \<open>loan_capacity_by_payments\<close>. The outcome of the chosen solve (a
  result, an exception, no return) is the outcome of \<open>calc\<close>.
\<close>

theorem calc_direction:
  "n_total_in (calc_normalize req) =
     (case total_loan_input_man req of None \<Rightarrow> 0
      | Some v \<Rightarrow> fst (normalize_man_input (Some v)))
   \<and> n_monthly_in (calc_normalize req) =
     (case monthly_man req of None \<Rightarrow> 0 | Some v \<Rightarrow> fst (normalize_man_input (Some v)))
   \<and> (if 0 < n_total_in (calc_normalize req) \<and> n_monthly_in (calc_normalize req) \<le> 0
    then (case monthly_payment_from_total_loan (n_total_in (calc_normalize req))
                 (n_bonus_man (calc_normalize req)) (rate_percent req) (years req) of
            None \<Rightarrow> calc_run cfg req = None
          | Some (Inl e) \<Rightarrow> calc_run cfg req = Some (Inl e)
          | Some (Inr mo) \<Rightarrow>
              (\<exists>l. calc_run cfg req = Some (Inr l) \<and> l_monthly l = mo
                   \<and> l_total_loan l = n_total_in (calc_normalize req)))
    else (case loan_capacity_by_payments (n_monthly_in (calc_normalize req))
                 (n_bonus_man (calc_normalize req)) (rate_percent req) (years req) of
            None \<Rightarrow> calc_run cfg req = None
          | Some (Inl e) \<Rightarrow> calc_run cfg req = Some (Inl e)
          | Some (Inr loan) \<Rightarrow>
              (\<exists>l. calc_run cfg req = Some (Inr l)
                   \<and> l_monthly l = n_monthly_in (calc_normalize req)
                   \<and> l_total_loan l = loan)))"
  using calc_direction_core [of req cfg] calc_normalize_fields(2,3) [of req] by blast

theorem calc_direction_witness:
  "n_total_in (calc_normalize
     \<lparr>self_man = 217, monthly_man = None, total_loan_input_man = Some 4200, rate_percent = 0,
      area_need_m2 = 60, years = 35, reno_mode = Full, reno_cost_input_man = None,
      bonus_man = 0, memo_text = None\<rparr>) = 4200
   \<and> monthly_payment_from_total_loan 4200 0 0 35 = Some (Inr 10)
   \<and> (\<exists>l. calc_run default_config
        \<lparr>self_man = 217, monthly_man = None, total_loan_input_man = Some 4200,
         rate_percent = 0, area_need_m2 = 60, years = 35, reno_mode = Full,
         reno_cost_input_man = None, bonus_man = 0, memo_text = None\<rparr> = Some (Inr l)
        \<and> l_monthly l = 10 \<and> l_total_loan l = 4200)"
  using calc_direction [of
     "\<lparr>self_man = 217, monthly_man = None, total_loan_input_man = Some 4200, rate_percent = 0,
      area_need_m2 = 60, years = 35, reno_mode = Full, reno_cost_input_man = None,
      bonus_man = 0, memo_text = None\<rparr>" default_config]
  by (simp add: calc_normalize_fields normalize_man_input_def monthly_payment_zero_rate)

subsection \<open>The purchasable price\<close>

lemma calc_reported:
  assumes "calc cfg req = Some (Inr res)"
  shows "\<exists>l. calc_run cfg req = Some (Inr l)
           \<and> solve_purchase_price (l_disposable l) (FEE_RATE cfg) = Inr (l_purch l)
           \<and> purchasable_price_man res = py_round (l_purch l) 1
           \<and> fee_man res = py_round (l_purch l * FEE_RATE cfg) 1"
proof -
  obtain l where l: "calc_run cfg req = Some (Inr l)" and res: "res = calc_response req l"
    using assms by (auto simp: calc_def split: option.splits sum.splits)
  show ?thesis
    using l res calc_run_locals(3,4) [OF l] by (simp add: calc_response_def)
qed

lemma app_calc_reported:
  assumes "app_calc cfg req = Some (Inr res)"
  shows "\<exists>l. app_calc_run cfg req = Some (Inr l)
           \<and> solve_purchase_price (al_disposable l) (FEE_RATE cfg) = Inr (al_purch_price l)
           \<and> app_purchasable_price_man res = py_round (al_purch_price l) 1
           \<and> app_fee_man res = py_round (al_purch_price l * FEE_RATE cfg) 1"
proof -
  obtain l where l: "app_calc_run cfg req = Some (Inr l)"
    and res: "res = app_calc_response req l"
    using assms by (auto simp: app_calc_def split: option.splits sum.splits)
  show ?thesis
    using l res app_calc_run_locals(2,3) [OF l] by (simp add: app_calc_response_def)
qed

lemma calc_fee_example:
  "calc default_config
     \<lparr>self_man = 300, monthly_man = Some 10, total_loan_input_man = None, rate_percent = 0,
      area_need_m2 = 60, years = 35, reno_mode = Full, reno_cost_input_man = None,
      bonus_man = 0, memo_text = None\<rparr>
   = Some (Inr \<lparr>ok = True, monthly_man_out = 10, total_loan_man = 4200, reno_cost_man = 1070,
                reno_cost_tax_incl_man = 1177, fee_man = 2461 / 10,
                purchasable_price_man = 30769 / 10, memo_text_out = [],
                warning_text = None\<rparr>)"
  by (simp add: calc_def calc_run_def calc_normalize_def
      calc_solve_def loan_capacity_zero_rate normalize_man_input_def full_renovation_cost_def
      default_config_def solve_purchase_price_returns calc_response_def py_round_def
      round_half_even_def Let_def)

lemma calc_forward_response_example:
  "calc default_config
     \<lparr>self_man = 217, monthly_man = Some 10, total_loan_input_man = None, rate_percent = 0,
      area_need_m2 = 60, years = 35, reno_mode = Full, reno_cost_input_man = None,
      bonus_man = 0, memo_text = None\<rparr>
   = Some (Inr \<lparr>ok = True, monthly_man_out = 10, total_loan_man = 4200, reno_cost_man = 1070,
                reno_cost_tax_incl_man = 1177, fee_man = 240,
                purchasable_price_man = 3000, memo_text_out = [],
                warning_text = None\<rparr>)"
  by (simp add: calc_def calc_run_forward_example calc_response_def py_round_def
      round_half_even_def Let_def)

lemma app_calc_response_example:
  "app_calc default_config
     \<lparr>app_self_man = 110, app_monthly_man = 10, app_rate_percent = 0, app_area_need_m2 = 60,
      app_years = 35, app_reno_mode = Full, app_reno_cost_input_man = None,
      app_bonus_man = 0, app_memo_text = None\<rparr>
   = Some (Inr \<lparr>app_ok = True, app_total_loan_man = 4200, app_reno_cost_man = 1070,
                app_reno_cost_tax_incl_man = 1177, app_fee_man = 240,
                app_purchasable_price_man = 3000, app_memo_text_out = []\<rparr>)"
  by (simp add: app_calc_def app_calc_run_example app_calc_response_def py_round_def
      round_half_even_def Let_def)

text \<open>
  C8, as stated, fails in two places. For every fee rate the price should be
  \<open>disposable / (1 + fee_rate)\<close> clamped at 0: with 100 of funds and a rate of \<open>-1/2\<close> the
  formula gives 200 and the code returns 100. And the reported fee should equal the returned
  price times the fee rate: with self funds 300, monthly payment 10, rate 0, 35 years and area
  60 in full mode, the returned price is \<open>3323 / 1.08\<close>, about 3076.85, and the reported fee
  is 246.1, which is neither that price times 0.08 (about 246.148) nor the reported price
  3076.9 times 0.08 (246.152).
\<close>

theorem solve_purchase_price_claim_counterexample:
  "solve_purchase_price 100 (- 1 / 2) \<noteq> Inr (max (100 / (1 + (- 1 / 2))) 0)
   \<and> calc default_config
        \<lparr>self_man = 300, monthly_man = Some 10, total_loan_input_man = None,
         rate_percent = 0, area_need_m2 = 60, years = 35, reno_mode = Full,
         reno_cost_input_man = None, bonus_man = 0, memo_text = None\<rparr>
      = Some (Inr \<lparr>ok = True, monthly_man_out = 10, total_loan_man = 4200,
                   reno_cost_man = 1070, reno_cost_tax_incl_man = 1177, fee_man = 2461 / 10,
                   purchasable_price_man = 30769 / 10, memo_text_out = [],
                   warning_text = None\<rparr>)
   \<and> solve_purchase_price (300 + 4200 - 1177) (FEE_RATE default_config) = Inr (83075 / 27)
   \<and> (2461 / 10 :: real) \<noteq> 83075 / 27 * FEE_RATE default_config
   \<and> (2461 / 10 :: real) \<noteq> 30769 / 10 * FEE_RATE default_config"
  using calc_fee_example by (simp add: solve_purchase_price_returns default_config_def)

text \<open>
  C8, amended: for every disposable-funds value and every fee rate, \<open>solve_purchase_price\<close>
  returns \<open>disposable / (1 + max fee_rate 0)\<close> clamped to a minimum of 0, which is
  \<open>disposable / (1 + fee_rate)\<close> clamped when the fee rate is not negative; the result is never
  negative; \<open>solve_purchase_price (-500) 0.08 = 0\<close>. In the response of both \<open>calc\<close>
  functions the reported fee is the returned price times the fee rate, rounded to one decimal
  place, and the reported price is the returned price rounded to one decimal place.
\<close>

theorem solve_purchase_price_clamped:
  "solve_purchase_price d f = Inr (max (d / (1 + max f 0)) 0)
   \<and> (0 \<le> f \<longrightarrow> solve_purchase_price d f = Inr (max (d / (1 + f)) 0))
   \<and> (\<exists>p. solve_purchase_price d f = Inr p \<and> 0 \<le> p)
   \<and> solve_purchase_price (- 500) (8 / 100) = Inr 0
   \<and> (calc cfg req = Some (Inr res) \<longrightarrow>
        (\<exists>l. calc_run cfg req = Some (Inr l)
           \<and> solve_purchase_price (l_disposable l) (FEE_RATE cfg) = Inr (l_purch l)
           \<and> purchasable_price_man res = py_round (l_purch l) 1
           \<and> fee_man res = py_round (l_purch l * FEE_RATE cfg) 1))
   \<and> (app_calc cfg areq = Some (Inr ares) \<longrightarrow>
        (\<exists>l. app_calc_run cfg areq = Some (Inr l)
           \<and> solve_purchase_price (al_disposable l) (FEE_RATE cfg) = Inr (al_purch_price l)
           \<and> app_purchasable_price_man ares = py_round (al_purch_price l) 1
           \<and> app_fee_man ares = py_round (al_purch_price l * FEE_RATE cfg) 1))"
  using calc_reported [of cfg req res] app_calc_reported [of cfg areq ares]
  by (simp add: solve_purchase_price_returns)

theorem solve_purchase_price_clamped_witness:
  "(0::real) \<le> 8 / 100
   \<and> solve_purchase_price 1080 (8 / 100) = Inr 1000
   \<and> calc default_config
        \<lparr>self_man = 217, monthly_man = Some 10, total_loan_input_man = None, rate_percent = 0,
         area_need_m2 = 60, years = 35, reno_mode = Full, reno_cost_input_man = None,
         bonus_man = 0, memo_text = None\<rparr>
      = Some (Inr \<lparr>ok = True, monthly_man_out = 10, total_loan_man = 4200,
                   reno_cost_man = 1070, reno_cost_tax_incl_man = 1177, fee_man = 240,
                   purchasable_price_man = 3000, memo_text_out = [], warning_text = None\<rparr>)
   \<and> app_calc default_config
        \<lparr>app_self_man = 110, app_monthly_man = 10, app_rate_percent = 0,
         app_area_need_m2 = 60, app_years = 35, app_reno_mode = Full,
         app_reno_cost_input_man = None, app_bonus_man = 0, app_memo_text = None\<rparr>
      = Some (Inr \<lparr>app_ok = True, app_total_loan_man = 4200, app_reno_cost_man = 1070,
                   app_reno_cost_tax_incl_man = 1177, app_fee_man = 240,
                   app_purchasable_price_man = 3000, app_memo_text_out = []\<rparr>)
   \<and> (\<exists>l. calc_run default_config
          \<lparr>self_man = 217, monthly_man = Some 10, total_loan_input_man = None,
           rate_percent = 0, area_need_m2 = 60, years = 35, reno_mode = Full,
           reno_cost_input_man = None, bonus_man = 0, memo_text = None\<rparr> = Some (Inr l)
        \<and> solve_purchase_price (l_disposable l) (FEE_RATE default_config) = Inr (l_purch l)
        \<and> (3000::real) = py_round (l_purch l) 1
        \<and> (240::real) = py_round (l_purch l * FEE_RATE default_config) 1)
   \<and> (\<exists>l. app_calc_run default_config
          \<lparr>app_self_man = 110, app_monthly_man = 10, app_rate_percent = 0,
           app_area_need_m2 = 60, app_years = 35, app_reno_mode = Full,
           app_reno_cost_input_man = None, app_bonus_man = 0, app_memo_text = None\<rparr>
          = Some (Inr l)
        \<and> solve_purchase_price (al_disposable l) (FEE_RATE default_config)
            = Inr (al_purch_price l)
        \<and> (3000::real) = py_round (al_purch_price l) 1
        \<and> (240::real) = py_round (al_purch_price l * FEE_RATE default_config) 1)"
  using solve_purchase_price_clamped [of 1080 "8 / 100" default_config
     "\<lparr>self_man = 217, monthly_man = Some 10, total_loan_input_man = None, rate_percent = 0,
         area_need_m2 = 60, years = 35, reno_mode = Full, reno_cost_input_man = None,
         bonus_man = 0, memo_text = None\<rparr>"
     "\<lparr>ok = True, monthly_man_out = 10, total_loan_man = 4200,
                   reno_cost_man = 1070, reno_cost_tax_incl_man = 1177, fee_man = 240,
                   purchasable_price_man = 3000, memo_text_out = [], warning_text = None\<rparr>"
     "\<lparr>app_self_man = 110, app_monthly_man = 10, app_rate_percent = 0,
         app_area_need_m2 = 60, app_years = 35, app_reno_mode = Full,
         app_reno_cost_input_man = None, app_bonus_man = 0, app_memo_text = None\<rparr>"
     "\<lparr>app_ok = True, app_total_loan_man = 4200, app_reno_cost_man = 1070,
                   app_reno_cost_tax_incl_man = 1177, app_fee_man = 240,
                   app_purchasable_price_man = 3000, app_memo_text_out = []\<rparr>"]
    calc_forward_response_example app_calc_response_example
  by simp

text \<open>
  C10. For a negative fee rate the rate is clamped to 0 before the division, so the price is
  the funds clamped at 0, and never more than that.
\<close>

theorem solve_purchase_price_negative_rate:
  "f < 0 \<Longrightarrow> solve_purchase_price t f = Inr (max t 0)"
  by (simp add: solve_purchase_price_returns)

theorem solve_purchase_price_negative_rate_witness:
  "(- 1 / 2 :: real) < 0 \<and> solve_purchase_price 100 (- 1 / 2) = Inr 100"
  using solve_purchase_price_negative_rate [of "- 1 / 2" 100] by simp

subsection \<open>Division by zero\<close>

text \<open>
  Over exact reals, for a rate \<open>\<ge> 0\<close> and at least one year, the three formulas return: the
  zero-rate branches and the early returns cover every zero divisor.
\<close>

lemma utilities_return_exact:
  assumes "0 \<le> r" and "1 \<le> y"
  shows "\<exists>v. pv_annuity m (r / 100 / 12) (y * 12) = Inr v"
    and "\<exists>v. pv_bonuses b (r / 100 / 12) (y * 12) 6 = Some (Inr v)"
    and "\<exists>v. monthly_payment_from_total_loan t b r y = Some (Inr v)"
proof -
  have i: "0 \<le> r / 100 / 12" using assms(1) by simp
  show "\<exists>v. pv_annuity m (r / 100 / 12) (y * 12) = Inr v"
    using pv_annuity_returns [OF i] .
  show "\<exists>v. pv_bonuses b (r / 100 / 12) (y * 12) 6 = Some (Inr v)"
    using pv_bonuses_returns [OF i] .
  show "\<exists>v. monthly_payment_from_total_loan t b r y = Some (Inr v)"
    using monthly_payment_returns [OF assms] .
qed

text \<open>The canonical form keeps the value.\<close>

lemma f64_norm_val: "f64_val (f64_norm m e) = of_int m * 2 powi e"
proof (induction m e rule: f64_norm.induct)
  case (1 m e)
  show ?case
  proof (cases "m = 0")
    case True
    then show ?thesis by (simp add: f64_norm.simps f64_val_def)
  next
    case False
    show ?thesis
    proof (cases "even m")
      case True
      then obtain h where h: "m = 2 * h" by (elim evenE)
      have "f64_val (f64_norm m e) = f64_val (f64_norm (m div 2) (e + 1))"
        using False True by (subst f64_norm.simps) simp
      also have "\<dots> = of_int (m div 2) * 2 powi (e + 1)"
        using 1 False True by simp
      also have "\<dots> = of_int m * 2 powi e"
        using h by (simp add: power_int_add)
      finally show ?thesis .
    next
      case odd: False
      then show ?thesis using False by (subst f64_norm.simps) (simp add: f64_val_def)
    qed
  qed
qed

text \<open>
  Two checks of the binary64 model: \<open>bit_length\<close> is the position of the leading bit, and
  \<open>f64_round\<close> returns a double within half a unit in the last place of the exact value.
\<close>

lemma f64_finite_val:
  assumes "f64_finite m e = Inr x"
  shows "f64_val x = of_int m * 2 powi e"
  using assms by (auto simp: f64_finite_def f64_norm_val split: if_splits)

lemma round_step_error:
  fixes a :: int
  assumes "0 \<le> a" and "0 < k"
  defines "q \<equiv> a div 2 ^ k" and "r \<equiv> a mod 2 ^ k" and "h \<equiv> (2::int) ^ (k - 1)"
  defines "q' \<equiv> (if h < r \<or> (r = h \<and> odd q) then q + 1 else q)"
  shows "\<bar>q' * 2 ^ k - a\<bar> \<le> h"
proof -
  have a: "a = q * 2 ^ k + r" unfolding q_def r_def by (rule div_mult_mod_eq [symmetric])
  have r: "0 \<le> r" "r < 2 ^ k" by (simp_all add: r_def)
  have hk: "(2::int) ^ k = 2 * h" using assms(2) by (simp add: h_def power_eq_if)
  show ?thesis
  proof (cases "h < r \<or> (r = h \<and> odd q)")
    case True
    then have "q' = q + 1" by (simp add: q'_def)
    then have "q' * 2 ^ k - a = 2 ^ k - r" using a by (simp add: algebra_simps)
    then show ?thesis using True r hk by auto
  next
    case False
    then have "q' = q" by (simp add: q'_def)
    then have "q' * 2 ^ k - a = - r" using a by simp
    then show ?thesis using False r by auto
  qed
qed

lemma f64_round_error:
  assumes "f64_round M e = Inr x"
  shows "\<bar>f64_val x - of_int M * 2 powi e\<bar>
           \<le> 2 powi (e + max (bit_length \<bar>M\<bar> - 53) (- 1074 - e) - 1)"
proof -
  define k where "k = max (bit_length \<bar>M\<bar> - 53) (- 1074 - e)"
  show ?thesis
  proof (cases "k \<le> 0")
    case True
    then have "f64_finite M e = Inr x" using assms by (simp add: f64_round_def k_def [symmetric])
    then show ?thesis using f64_finite_val by simp
  next
    case False
    define q where "q = \<bar>M\<bar> div 2 ^ nat k"
    define r where "r = \<bar>M\<bar> mod 2 ^ nat k"
    define h where "h = (2::int) ^ (nat k - 1)"
    define q' where "q' = (if h < r \<or> (r = h \<and> odd q) then q + 1 else q)"
    have fin: "f64_finite (sgn M * q') (e + k) = Inr x"
      using assms False
      unfolding f64_round_def Let_def k_def [symmetric] q'_def h_def r_def q_def by simp
    have val: "f64_val x = of_int (sgn M * q') * 2 powi (e + k)"
      using f64_finite_val [OF fin] .
    have step: "\<bar>q' * 2 ^ nat k - \<bar>M\<bar>\<bar> \<le> h"
      unfolding q'_def q_def r_def h_def
      by (rule round_step_error) (use False in simp_all)
    have kk: "(2::real) powi k = 2 ^ nat k" using False by (simp add: power_int_def)
    have Mrep: "(of_int M :: real) = of_int (sgn M) * of_int \<bar>M\<bar>"
      by (simp only: mult_sgn_abs flip: of_int_mult)
    have pw: "(2::real) powi (e + k) = 2 powi e * 2 ^ nat k"
      using kk by (simp add: power_int_add)
    have "f64_val x - of_int M * 2 powi e
            = of_int (sgn M) * of_int q' * (2 powi e * 2 ^ nat k)
              - of_int (sgn M) * of_int \<bar>M\<bar> * 2 powi e"
      unfolding val pw by (subst Mrep) (simp only: of_int_mult)
    also have "\<dots> = of_int (sgn M) * (of_int q' * 2 ^ nat k - of_int \<bar>M\<bar>) * 2 powi e"
      by (simp only: algebra_simps)
    finally have "f64_val x - of_int M * 2 powi e
            = of_int (sgn M) * of_int (q' * 2 ^ nat k - \<bar>M\<bar>) * 2 powi e"
      by (simp only: of_int_diff of_int_mult of_int_power of_int_numeral)
    then have "\<bar>f64_val x - of_int M * 2 powi e\<bar>
            = \<bar>of_int (sgn M)\<bar> * \<bar>of_int (q' * 2 ^ nat k - \<bar>M\<bar>)\<bar> * 2 powi e"
      by (simp add: abs_mult)
    also have "\<dots> \<le> 1 * of_int h * 2 powi e"
    proof -
      have "\<bar>of_int (sgn M) :: real\<bar> \<le> 1" by (simp add: sgn_if)
      moreover have "\<bar>of_int (q' * 2 ^ nat k - \<bar>M\<bar>) :: real\<bar> \<le> of_int h"
        using step by (metis of_int_abs of_int_le_iff)
      ultimately show ?thesis
        by (intro mult_right_mono mult_mono) auto
    qed
    also have "\<dots> = 2 powi (e + k - 1)"
    proof -
      have "(of_int h :: real) = 2 powi (k - 1)"
        using False by (simp add: h_def power_int_def nat_diff_distrib)
      then show ?thesis by (simp add: power_int_add power_int_diff)
    qed
    finally show ?thesis by (simp add: k_def)
  qed
qed


lemma bit_length_nonneg: "0 \<le> bit_length n"
proof (induction n rule: bit_length.induct)
  case (1 n)
  then show ?case by (subst bit_length.simps) simp
qed

lemma bit_length_bounds:
  assumes "0 < n"
  shows "2 ^ nat (bit_length n - 1) \<le> n \<and> n < 2 ^ nat (bit_length n)"
  using assms
proof (induction n rule: bit_length.induct)
  case (1 n)
  show ?case
  proof (cases "n = 1")
    case True
    then show ?thesis by (simp add: bit_length.simps)
  next
    case False
    then have half: "0 < n div 2" using 1(2) by simp
    have bl: "bit_length n = 1 + bit_length (n div 2)"
      using 1(2) by (subst bit_length.simps) simp
    have IH: "2 ^ nat (bit_length (n div 2) - 1) \<le> n div 2"
             "n div 2 < 2 ^ nat (bit_length (n div 2))"
      using 1(1) 1(2) half by simp_all
    have pos: "0 < bit_length (n div 2)"
      using half bit_length_nonneg [of "n div 2 div 2"]
      by (subst bit_length.simps) simp
    have e1: "nat (bit_length n - 1) = Suc (nat (bit_length (n div 2) - 1))"
      using bl pos by simp
    have e2: "nat (bit_length n) = Suc (nat (bit_length (n div 2)))"
      using bl pos by simp
    show ?thesis
      unfolding e1 e2 using IH by simp linarith
  qed
qed

text \<open>The double written \<open>1e-15\<close> is within half a unit in the last place of \<open>10 ^ (- 15)\<close>.\<close>

lemma tiny_rate_is_1e_15:
  "\<bar>f64_val (F64 2535301200456459 (- 101)) - 1 / 10 ^ 15\<bar> \<le> 2 powi (- 103)"
  by (simp add: f64_val_def power_int_minus field_simps)

text \<open>The steps of \<open>monthly_payment_from_total_loan(2000, 0, 1e-15, 30)\<close> in binary64.\<close>

lemma f64_literals:
  "f64_lit 100 = F64 25 2" "f64_lit 12 = F64 3 2" "f64_lit 1 = F64 1 0"
  "f64_lit 0 = F64 0 0" "f64_lit 2000 = F64 125 4"
  by code_simp+

lemma tiny_rate_div_100:
  "f64_div (F64 2535301200456459 (- 101)) (F64 25 2) = Inr (F64 6490371073168535 (- 109))"
  by code_simp

lemma tiny_rate_div_12:
  "f64_div (F64 6490371073168535 (- 109)) (F64 3 2) = Inr (F64 8653828097558047 (- 113))"
  by code_simp

lemma one_plus_tiny_is_one:
  "f64_add (F64 1 0) (F64 8653828097558047 (- 113)) = Inr (F64 1 0)"
  by code_simp

lemma one_to_the_minus_360: "f64_pow (F64 1 0) (- 360) = Inr (F64 1 0)"
  by code_simp

lemma one_minus_one: "f64_sub (F64 1 0) (F64 1 0) = Inr (F64 0 0)"
  by code_simp

lemma loan_minus_no_bonus: "f64_sub (F64 125 4) (F64 0 0) = Inr (F64 125 4)"
  by code_simp

lemma loan_max_zero: "f64_max (F64 125 4) (F64 0 0) = F64 125 4"
  by code_simp

lemma loan_times_tiny:
  "f64_mul (F64 125 4) (F64 8653828097558047 (- 113)) = Inr (F64 4225502000760765 (- 101))"
  by code_simp

lemma div_by_zero_denom:
  "f64_div (F64 4225502000760765 (- 101)) (F64 0 0) = Inl ZeroDivisionError"
  by code_simp

lemma zero_not_less_zero: "f64_less (F64 0 0) (F64 0 0) = False"
  by code_simp

text \<open>
  C9 asks that no formula divide by zero for a rate \<open>\<ge> 0\<close> and 1 to 50 years. The guard
  \<open>i == 0\<close> of \<open>monthly_payment_from_total_loan\<close> does not cover a positive monthly rate so
  small that \<open>1 + i\<close> rounds to \<open>1.0\<close>: for a total loan of 2000, no bonus, a rate of
  \<open>1e-15\<close> percent and 30 years, \<open>i\<close> is about \<open>8.3e-19\<close>, \<open>(1 + i) ** (-360)\<close> is \<open>1.0\<close>, the
  denominator \<open>1 - 1.0\<close> is \<open>0.0\<close>, and the last division raises \<open>ZeroDivisionError\<close>.
\<close>

theorem monthly_payment_tiny_rate_divides_by_zero:
  "monthly_payment_from_total_loan_f64 (F64 125 4) (F64 0 0)
     (F64 2535301200456459 (- 101)) 30 = Some (Inl ZeroDivisionError)"
  by (simp add: monthly_payment_from_total_loan_f64_def pv_bonuses_f64_def and_then_def
      f64_literals tiny_rate_div_100 tiny_rate_div_12 one_plus_tiny_is_one
      one_to_the_minus_360 one_minus_one loan_minus_no_bonus loan_max_zero loan_times_tiny
      div_by_zero_denom zero_not_less_zero)

text \<open>The steps of the round trip from a monthly payment of 10 at the same rate.\<close>

lemma zero_times_payment: "f64_mul (F64 5 1) (F64 0 0) = Inr (F64 0 0)"
  by code_simp

lemma zero_over_tiny: "f64_div (F64 0 0) (F64 8653828097558047 (- 113)) = Inr (F64 0 0)"
  by code_simp

lemma zero_plus_zero: "f64_add (F64 0 0) (F64 0 0) = Inr (F64 0 0)"
  by code_simp

lemma zero_minus_zero: "f64_sub (F64 0 0) (F64 0 0) = Inr (F64 0 0)"
  by code_simp

lemma zero_max_zero: "f64_max (F64 0 0) (F64 0 0) = F64 0 0"
  by code_simp

lemma zero_times_tiny: "f64_mul (F64 0 0) (F64 8653828097558047 (- 113)) = Inr (F64 0 0)"
  by code_simp

lemma zero_over_zero: "f64_div (F64 0 0) (F64 0 0) = Inl ZeroDivisionError"
  by code_simp

text \<open>
  C2 asks that, for \<open>m \<ge> 0\<close>, \<open>b \<ge> 0\<close>, \<open>r > 0\<close> and \<open>y \<ge> 1\<close>, the reverse solve on the result
  of the forward solve give \<open>m\<close> back, up to rounding. The formulas are inverses over exact
  reals (\<open>reverse_solve_inverts_forward_exact\<close>), but the code is not for a positive rate so
  small that \<open>1 + i\<close> rounds to \<open>1.0\<close>: for a monthly payment of 10, no bonus, a rate of
  \<open>1e-15\<close> percent and 30 years, \<open>loan_capacity_by_payments\<close> returns \<open>10 * (1 - 1.0) / i = 0.0\<close>
  instead of about 3600, and \<open>monthly_payment_from_total_loan\<close> on that loan divides
  \<open>0.0 * i\<close> by \<open>0.0\<close> and raises \<open>ZeroDivisionError\<close> instead of returning 10.
\<close>

theorem round_trip_tiny_rate_fails:
  "loan_capacity_by_payments_f64 (F64 5 1) (F64 0 0) (F64 2535301200456459 (- 101)) 30
     = Some (Inr (F64 0 0))
   \<and> monthly_payment_from_total_loan_f64 (F64 0 0) (F64 0 0)
       (F64 2535301200456459 (- 101)) 30 = Some (Inl ZeroDivisionError)"
  by (simp add: loan_capacity_by_payments_f64_def pv_annuity_f64_def
      monthly_payment_from_total_loan_f64_def pv_bonuses_f64_def and_then_def
      f64_literals tiny_rate_div_100 tiny_rate_div_12 one_plus_tiny_is_one
      one_to_the_minus_360 one_minus_one zero_not_less_zero zero_times_payment
      zero_over_tiny zero_plus_zero zero_minus_zero zero_max_zero zero_times_tiny
      zero_over_zero)

end
